theory Spec2Isabelle
  imports Main
begin

section \<open>Identifiers\<close>

text \<open>
  A document id is a 12-byte ObjectId.  It is represented by its hexadecimal rendering
  (24 lower-case hex digits), which is what \<^verbatim>\<open>toString()\<close> and the JSON form return.
  \<^verbatim>\<open>new mongoose.Types.ObjectId(s)\<close> and the schema's cast accept a string of 24 hex digits
  of either case and throw on any other string; \<open>castObjectId\<close> returns \<open>None\<close> for the
  throw.  (Driver versions before bson 6 also took any 12-character string as the raw
  bytes of an id; the examples below use no such string.)
\<close>

datatype ObjectId = ObjectId string

fun toString :: "ObjectId \<Rightarrow> string" where
  "toString (ObjectId h) = h"

definition isHexDigit :: "char \<Rightarrow> bool" where
  "isHexDigit c = (c \<in> set ''0123456789abcdefABCDEF'')"

definition lowerHex :: "char \<Rightarrow> char" where
  "lowerHex c =
     (if c = CHR ''A'' then CHR ''a'' else if c = CHR ''B'' then CHR ''b''
      else if c = CHR ''C'' then CHR ''c'' else if c = CHR ''D'' then CHR ''d''
      else if c = CHR ''E'' then CHR ''e'' else if c = CHR ''F'' then CHR ''f'' else c)"

definition castObjectId :: "string \<Rightarrow> ObjectId option" where
  "castObjectId s =
     (if length s = 24 \<and> list_all isHexDigit s then Some (ObjectId (map lowerHex s)) else None)"

section \<open>Schemas\<close>

text \<open>
  One record per mongoose schema, with the fields the schema declares and the implicit
  \<^verbatim>\<open>_id\<close>.  A field that a document may lack is an \<open>option\<close>; fields with a schema default
  or \<^verbatim>\<open>required\<close> are plain.
\<close>

record User =
  user_id :: ObjectId
  name :: string
  username :: string
  password :: string

record Task =
  task_id :: ObjectId
  title :: string
  description :: "string option"
  link :: "string option"
  tags :: "string option"
  visibility :: string
  completed :: bool
  status :: int
  group :: "ObjectId option"
  owner :: ObjectId
  assigned_by :: "string option"
  assigned_to :: "string option"
  priority :: "string option"
  dueDate :: "string option"
  task_type :: "string option"
  linkedTasks :: "ObjectId list"

record Group =
  group_id :: ObjectId
  group_name :: string
  group_owner :: ObjectId
  members :: "ObjectId list"

text \<open>Values stored in the free-form \<^verbatim>\<open>changes\<close> object of an audit record.\<close>

datatype jvalue =
  JUndefined | JString string | JBool bool | JNumber int | JId ObjectId | JIds "ObjectId list"

type_synonym jobject = "(string \<times> jvalue) list"

datatype audit_action = create | update | delete

record Audit =
  taskId :: ObjectId
  action :: audit_action
  changedBy :: ObjectId
  changes :: jobject
  timestamp :: nat

datatype notification_type = assignment | update_event | deleted

record Notification =
  userId :: ObjectId
  notif_taskId :: ObjectId
  message :: string
  notif_type :: notification_type
  read :: bool
  createdAt :: nat

text \<open>The five collections.  \<^verbatim>\<open>_id\<close> is unique within a collection.\<close>

record state =
  users :: "User list"
  tasks :: "Task list"
  groups :: "Group list"
  audits :: "Audit list"
  notifications :: "Notification list"

section \<open>Requests, environment, exceptions\<close>

text \<open>
  What a request handler reads besides the collections: the signing secret, the clock
  (\<^verbatim>\<open>Date.now()\<close>, milliseconds), the \<^verbatim>\<open>_id\<close> the driver generates for a document created
  by the request, and whether a write to the audit or notification collection, or the
  mail relay, fails during this request.
\<close>

record env =
  JWT_SECRET :: string
  now :: nat
  newId :: ObjectId
  audit_save_fails :: bool
  insertMany_fails :: bool
  sendMail_fails :: bool

datatype exn =
  CastError | ValidationError | BSONError | TypeError | StoreError
  | JsonWebTokenError | TokenExpiredError

text \<open>
  The JSON body of POST and PUT \<^verbatim>\<open>/api/tasks\<close>; \<open>None\<close> is a key that is absent
  (\<^verbatim>\<open>undefined\<close> after destructuring).  \<^verbatim>\<open>group\<close> and \<^verbatim>\<open>linkedTasks\<close> arrive as strings and
  are cast by the schema.
\<close>

record TaskBody =
  body_title :: "string option"
  body_description :: "string option"
  body_link :: "string option"
  body_tags :: "string option"
  body_visibility :: "string option"
  body_completed :: "bool option"
  body_status :: "int option"
  body_group :: "string option"
  body_assigned_by :: "string option"
  body_assigned_to :: "string option"
  body_priority :: "string option"
  body_dueDate :: "string option"
  body_type :: "string option"
  body_linkedTasks :: "string list option"

text \<open>JavaScript truthiness of a value that is a string or \<^verbatim>\<open>undefined\<close>.\<close>

definition truthy :: "string option \<Rightarrow> bool" where
  "truthy x = (case x of None \<Rightarrow> False | Some v \<Rightarrow> v \<noteq> [])"

fun orElse :: "'a option \<Rightarrow> 'a \<Rightarrow> 'a" where
  "orElse None d = d"
| "orElse (Some x) d = x"

fun orKeep :: "'a option \<Rightarrow> 'a option \<Rightarrow> 'a option" where
  "orKeep None old = old"
| "orKeep (Some x) old = Some x"

fun castIds :: "string list \<Rightarrow> ObjectId list option" where
  "castIds [] = Some []"
| "castIds (x # xs) =
     (case castObjectId x of None \<Rightarrow> None
      | Some i \<Rightarrow> (case castIds xs of None \<Rightarrow> None | Some is \<Rightarrow> Some (i # is)))"

section \<open>Responses\<close>

text \<open>A session token: either a string that is no JWT, or a payload signed with some key.\<close>

record JwtPayload =
  jwt_userId :: ObjectId
  iat :: nat
  exp :: "nat option"

datatype Token = NotAJwt string | Jwt JwtPayload string

datatype json =
  Message string
  | TaskJson Task
  | TasksJson "Task list"
  | SignupJson Token ObjectId
  | LoginJson Token ObjectId string
  | VerifyJson string ObjectId

record response =
  res_status :: nat
  res_json :: json
  res_cookie :: "(Token \<times> nat) option"

definition respond :: "nat \<Rightarrow> json \<Rightarrow> response" where
  "respond c j = \<lparr>res_status = c, res_json = j, res_cookie = None\<rparr>"

section \<open>Session tokens\<close>

text \<open>
  \<^verbatim>\<open>jwt.sign(payload, secret, { expiresIn })\<close> stamps the payload with the clock in seconds
  and, when \<^verbatim>\<open>expiresIn\<close> is given, with the expiry.  \<^verbatim>\<open>jwt.verify\<close> throws on a string
  that is no JWT, on a signature made with another key, and once the clock has reached
  the expiry; a payload without expiry is never rejected for its age.
\<close>

definition clock :: "env \<Rightarrow> nat" where
  "clock e = now e div 1000"

definition jwt_sign :: "env \<Rightarrow> ObjectId \<Rightarrow> string \<Rightarrow> nat option \<Rightarrow> Token" where
  "jwt_sign e uid secret expiresIn =
     Jwt \<lparr>jwt_userId = uid, iat = clock e,
          exp = (case expiresIn of None \<Rightarrow> None | Some d \<Rightarrow> Some (clock e + d))\<rparr> secret"

fun jwt_verify :: "env \<Rightarrow> Token \<Rightarrow> string \<Rightarrow> exn + JwtPayload" where
  "jwt_verify e (NotAJwt x) secret = Inl JsonWebTokenError"
| "jwt_verify e (Jwt p k) secret =
     (if k \<noteq> secret then Inl JsonWebTokenError
      else case exp p of
             None \<Rightarrow> Inr p
           | Some t \<Rightarrow> if clock e \<ge> t then Inl TokenExpiredError else Inr p)"

text \<open>\<^verbatim>\<open>!token\<close>: the cookie is absent or the empty string.\<close>

fun noToken :: "Token option \<Rightarrow> bool" where
  "noToken None = True"
| "noToken (Some (NotAJwt x)) = (x = [])"
| "noToken (Some (Jwt p k)) = False"

text \<open>
  \<open>authMiddleware\<close>: \<open>Inl\<close> is the response it sends itself, \<open>Inr\<close> the \<^verbatim>\<open>req.userId\<close> with
  which \<^verbatim>\<open>next()\<close> runs the guarded handler.
\<close>

definition authMiddleware :: "env \<Rightarrow> Token option \<Rightarrow> response + ObjectId" where
  "authMiddleware e cookie =
     (if noToken cookie then Inl (respond 401 (Message ''Unauthorized''))
      else case cookie of
             None \<Rightarrow> Inl (respond 401 (Message ''Unauthorized''))
           | Some token \<Rightarrow>
               (case jwt_verify e token (JWT_SECRET e) of
                  Inl x \<Rightarrow> Inl (respond 401 (Message ''Unauthorized''))
                | Inr decodedToken \<Rightarrow> Inr (jwt_userId decodedToken)))"

definition guarded ::
  "env \<Rightarrow> Token option \<Rightarrow> (ObjectId \<Rightarrow> state \<Rightarrow> response \<times> state) \<Rightarrow> state \<Rightarrow> response \<times> state" where
  "guarded e cookie handler s =
     (case authMiddleware e cookie of Inl r \<Rightarrow> (r, s) | Inr uid \<Rightarrow> handler uid s)"

definition findUser :: "state \<Rightarrow> ObjectId \<Rightarrow> User option" where
  "findUser s i = find (\<lambda>u. user_id u = i) (users s)"

text \<open>GET \<^verbatim>\<open>/api/users/verify\<close>, which runs the same token check and then looks the user up.\<close>

definition getVerify :: "env \<Rightarrow> Token option \<Rightarrow> state \<Rightarrow> response" where
  "getVerify e cookie s =
     (if noToken cookie then respond 401 (Message ''Unauthorized'')
      else case cookie of
             None \<Rightarrow> respond 401 (Message ''Unauthorized'')
           | Some token \<Rightarrow>
               (case jwt_verify e token (JWT_SECRET e) of
                  Inl x \<Rightarrow> respond 401 (Message ''Unauthorized'')
                | Inr decodedToken \<Rightarrow>
                    (case findUser s (jwt_userId decodedToken) of
                       None \<Rightarrow> respond 401 (Message ''Unauthorized'')
                     | Some user \<Rightarrow>
                         respond 200 (VerifyJson ''JWT is valid'' (jwt_userId decodedToken)))))"

section \<open>GET /api/tasks\<close>

text \<open>\<^verbatim>\<open>Group.find({ members: userId }).distinct('_id')\<close>\<close>

definition memberGroupIds :: "state \<Rightarrow> ObjectId \<Rightarrow> ObjectId list" where
  "memberGroupIds s uid = remdups (map group_id (filter (\<lambda>g. uid \<in> set (members g)) (groups s)))"

text \<open>
  The \<^verbatim>\<open>$or\<close> filter of the query.  \<^verbatim>\<open>req.userId\<close> is the hex string of the session user's
  id: it is cast to an ObjectId against \<^verbatim>\<open>owner\<close> and \<^verbatim>\<open>members\<close>, and compared as a string
  against the String fields \<^verbatim>\<open>assigned_by\<close> and \<^verbatim>\<open>assigned_to\<close>.
\<close>

definition taskFilter :: "ObjectId list \<Rightarrow> ObjectId \<Rightarrow> Task \<Rightarrow> bool" where
  "taskFilter gids uid t =
     (owner t = uid
      \<or> assigned_by t = Some (toString uid)
      \<or> assigned_to t = Some (toString uid)
      \<or> visibility t = ''public''
      \<or> (visibility t = ''group'' \<and> (case group t of None \<Rightarrow> False | Some g \<Rightarrow> g \<in> set gids)))"

definition getTasks :: "ObjectId \<Rightarrow> state \<Rightarrow> response \<times> state" where
  "getTasks uid s =
     (respond 200 (TasksJson (filter (taskFilter (memberGroupIds s uid) uid) (tasks s))), s)"

fun listed :: "response \<Rightarrow> Task list" where
  "listed r = (case res_json r of TasksJson ts \<Rightarrow> ts | _ \<Rightarrow> [])"

section \<open>Audit recorder\<close>

text \<open>\<open>recordAudit\<close> catches and logs a failed save, so it always returns normally.\<close>

definition recordAudit ::
  "env \<Rightarrow> ObjectId \<Rightarrow> audit_action \<Rightarrow> ObjectId \<Rightarrow> jobject \<Rightarrow> state \<Rightarrow> state" where
  "recordAudit e tid act by ch s =
     (if audit_save_fails e then s
      else s\<lparr>audits := audits s @
             [\<lparr>taskId = tid, action = act, changedBy = by, changes = ch, timestamp = now e\<rparr>]\<rparr>)"

section \<open>Notification dispatcher\<close>

text \<open>
  \<open>getUsersToNotify\<close> collects ObjectId \<^emph>\<open>objects\<close> in a JavaScript \<^verbatim>\<open>Set\<close>, which holds an
  object once per identity and not once per value.  An element is therefore the object
  (\<open>ref\<close>) paired with the id it carries: the object built from \<^verbatim>\<open>task.assigned_to\<close>, the
  task's own \<^verbatim>\<open>owner\<close> field, or the \<^verbatim>\<open>_id\<close> of a populated member document (populate
  hands out one document per user, and drops members that are no user any more).
\<close>

datatype ref = NewObjectId | OwnerField | MemberDoc ObjectId

definition setAdd :: "(ref \<times> ObjectId) list \<Rightarrow> ref \<times> ObjectId \<Rightarrow> (ref \<times> ObjectId) list" where
  "setAdd xs x = (if fst x \<in> fst ` set xs then xs else xs @ [x])"

definition findGroup :: "state \<Rightarrow> ObjectId \<Rightarrow> Group option" where
  "findGroup s i = find (\<lambda>g. group_id g = i) (groups s)"

definition findTask :: "state \<Rightarrow> ObjectId \<Rightarrow> Task option" where
  "findTask s i = find (\<lambda>t. task_id t = i) (tasks s)"

definition populate :: "state \<Rightarrow> ObjectId list \<Rightarrow> User list" where
  "populate s ids = List.map_filter (findUser s) ids"

text \<open>The body of the \<^verbatim>\<open>try\<close> block; \<open>Inl\<close> is a throw.\<close>

definition collectUsers :: "state \<Rightarrow> Task \<Rightarrow> exn + (ref \<times> ObjectId) list" where
  "collectUsers s task =
     (case (if truthy (assigned_to task)
            then (case castObjectId (orElse (assigned_to task) []) of
                    None \<Rightarrow> Inl BSONError
                  | Some i \<Rightarrow> Inr (setAdd [] (NewObjectId, i)))
            else Inr []) of
        Inl x \<Rightarrow> Inl x
      | Inr users1 \<Rightarrow>
          (let users2 =
                 (if truthy (assigned_to task) \<and> Some (toString (owner task)) \<noteq> assigned_to task
                  then setAdd users1 (OwnerField, owner task) else users1)
           in if visibility task = ''group'' \<and> group task \<noteq> None
              then (case group task of
                      None \<Rightarrow> Inr users2
                    | Some gid \<Rightarrow>
                        (case findGroup s gid of
                           None \<Rightarrow> Inl TypeError
                         | Some g \<Rightarrow>
                             Inr (foldl (\<lambda>us member. setAdd us (MemberDoc (user_id member), user_id member))
                                    users2 (populate s (members g)))))
              else Inr users2))"

definition getUsersToNotify :: "state \<Rightarrow> Task \<Rightarrow> ObjectId list" where
  "getUsersToNotify s task =
     (case collectUsers s task of Inl x \<Rightarrow> [] | Inr us \<Rightarrow> map snd us)"

text \<open>
  \<open>sendNotifications\<close> has no \<^verbatim>\<open>try\<close>: a rejected \<^verbatim>\<open>User.findById\<close> (the assignee string does
  not cast to an ObjectId) or a rejected \<^verbatim>\<open>insertMany\<close> is thrown to the caller.  An empty
  batch is returned without a write.
\<close>

definition quoted :: "string \<Rightarrow> string" where
  "quoted t = [CHR 0x22] @ t @ [CHR 0x22]"

definition notificationMessage ::
  "string \<Rightarrow> string \<Rightarrow> string \<Rightarrow> notification_type \<Rightarrow> string" where
  "notificationMessage actorName taskTitle assigneeName ty =
     (case ty of
        assignment \<Rightarrow> actorName @ '' created a task '' @ quoted taskTitle @ '' for '' @ assigneeName @ ''.''
      | update_event \<Rightarrow> actorName @ '' updated the task '' @ quoted taskTitle @ ''.''
      | deleted \<Rightarrow> actorName @ '' deleted the task '' @ quoted taskTitle @ ''.'')"

definition assigneeName :: "state \<Rightarrow> Task \<Rightarrow> exn + string" where
  "assigneeName s task =
     (case assigned_to task of
        None \<Rightarrow> Inr ''someone''
      | Some a \<Rightarrow>
          (case castObjectId a of
             None \<Rightarrow> Inl CastError
           | Some i \<Rightarrow> (case findUser s i of None \<Rightarrow> Inr ''someone'' | Some u \<Rightarrow> Inr (name u))))"

definition sendNotifications ::
  "env \<Rightarrow> ObjectId list \<Rightarrow> Task \<Rightarrow> notification_type \<Rightarrow> ObjectId \<Rightarrow> state \<Rightarrow> exn + state" where
  "sendNotifications e userIds task ty actorId s =
     (let actorName = (case findUser s actorId of None \<Rightarrow> ''Someone'' | Some actor \<Rightarrow> name actor);
          taskTitle = (if title task = [] then ''a task'' else title task)
      in case (if ty = assignment then assigneeName s task else Inr []) of
           Inl x \<Rightarrow> Inl x
         | Inr an \<Rightarrow>
             (let msg = notificationMessage actorName taskTitle an ty;
                  batch = map (\<lambda>u. \<lparr>userId = u, notif_taskId = task_id task, message = msg,
                                     notif_type = ty, read = False, createdAt = now e\<rparr>) userIds
              in if batch = [] then Inr s
                 else if insertMany_fails e then Inl StoreError
                 else Inr (s\<lparr>notifications := notifications s @ batch\<rparr>)))"

section \<open>Task routes\<close>

definition optString :: "string \<Rightarrow> string option \<Rightarrow> jobject" where
  "optString k v = (case v of None \<Rightarrow> [] | Some x \<Rightarrow> [(k, JString x)])"

definition orUndefined :: "string option \<Rightarrow> jvalue" where
  "orUndefined v = (case v of None \<Rightarrow> JUndefined | Some x \<Rightarrow> JString x)"

text \<open>\<^verbatim>\<open>savedTask.toObject()\<close>: the fields the document has.\<close>

definition toObject :: "Task \<Rightarrow> jobject" where
  "toObject t =
     [(''title'', JString (title t))] @ optString ''description'' (description t)
     @ optString ''link'' (link t) @ optString ''tags'' (tags t)
     @ [(''visibility'', JString (visibility t)), (''completed'', JBool (completed t)),
        (''status'', JNumber (status t))]
     @ (case group t of None \<Rightarrow> [] | Some g \<Rightarrow> [(''group'', JId g)])
     @ [(''owner'', JId (owner t))]
     @ optString ''assigned_by'' (assigned_by t) @ optString ''assigned_to'' (assigned_to t)
     @ optString ''priority'' (priority t) @ optString ''dueDate'' (dueDate t)
     @ optString ''type'' (task_type t)
     @ [(''linkedTasks'', JIds (linkedTasks t)), (''_id'', JId (task_id t))]"

text \<open>The object literal that \<open>deleteTask\<close> hands to \<open>recordAudit\<close>.\<close>

definition snapshot :: "Task \<Rightarrow> jobject" where
  "snapshot t =
     [(''title'', JString (title t)), (''description'', orUndefined (description t)),
      (''link'', orUndefined (link t)), (''tags'', orUndefined (tags t)),
      (''visibility'', JString (visibility t)), (''completed'', JBool (completed t)),
      (''status'', JNumber (status t)),
      (''group'', (case group t of None \<Rightarrow> JUndefined | Some g \<Rightarrow> JId g)),
      (''owner'', JId (owner t)), (''assigned_by'', orUndefined (assigned_by t)),
      (''assigned_to'', orUndefined (assigned_to t)), (''priority'', orUndefined (priority t)),
      (''dueDate'', orUndefined (dueDate t)), (''linkedTasks'', JIds (linkedTasks t))]"

text \<open>
  \<^verbatim>\<open>...(group && { group })\<close> followed by the schema's cast: \<open>Inr None\<close> when the key is left
  out, \<open>Inl\<close> when the string is no ObjectId.
\<close>

definition castGroup :: "string option \<Rightarrow> exn + ObjectId option" where
  "castGroup g =
     (if truthy g
      then (case castObjectId (orElse g []) of None \<Rightarrow> Inl CastError | Some i \<Rightarrow> Inr (Some i))
      else Inr None)"

definition castLinked :: "string list option \<Rightarrow> exn + ObjectId list option" where
  "castLinked l =
     (case l of
        None \<Rightarrow> Inr None
      | Some xs \<Rightarrow> (case castIds xs of None \<Rightarrow> Inl CastError | Some is \<Rightarrow> Inr (Some is)))"

text \<open>
  \<^verbatim>\<open>new Task({...})\<close> and \<^verbatim>\<open>save()\<close>: schema defaults, then validation (\<^verbatim>\<open>title\<close> required,
  \<^verbatim>\<open>visibility\<close> in its enum, ids castable).  POST does not read \<^verbatim>\<open>completed\<close> from the body.
\<close>

definition newTask :: "env \<Rightarrow> ObjectId \<Rightarrow> TaskBody \<Rightarrow> exn + Task" where
  "newTask e uid b =
     (if \<not> truthy (body_title b) then Inl ValidationError
      else if orElse (body_visibility b) ''private'' \<notin> {''private'', ''group'', ''public''}
      then Inl ValidationError
      else case castGroup (body_group b) of
             Inl x \<Rightarrow> Inl ValidationError
           | Inr g \<Rightarrow>
               (case castLinked (body_linkedTasks b) of
                  Inl x \<Rightarrow> Inl ValidationError
                | Inr l \<Rightarrow>
                    Inr \<lparr>task_id = newId e, title = orElse (body_title b) [],
                         description = body_description b, link = body_link b, tags = body_tags b,
                         visibility = orElse (body_visibility b) ''private'', completed = False,
                         status = orElse (body_status b) 1, group = g, owner = uid,
                         assigned_by = body_assigned_by b, assigned_to = body_assigned_to b,
                         priority = body_priority b, dueDate = body_dueDate b,
                         task_type = body_type b, linkedTasks = orElse l []\<rparr>))"

definition postTask :: "env \<Rightarrow> TaskBody \<Rightarrow> ObjectId \<Rightarrow> state \<Rightarrow> response \<times> state" where
  "postTask e b uid s =
     (case newTask e uid b of
        Inl x \<Rightarrow> (respond 500 (Message ''Failed to create task''), s)
      | Inr savedTask \<Rightarrow>
          (let s1 = s\<lparr>tasks := tasks s @ [savedTask]\<rparr>;
               s2 = recordAudit e (task_id savedTask) create uid (toObject savedTask) s1;
               usersToNotify = getUsersToNotify s2 savedTask
           in case sendNotifications e usersToNotify savedTask assignment uid s2 of
                Inl x \<Rightarrow> (respond 500 (Message ''Failed to create task''), s2)
              | Inr s3 \<Rightarrow> (respond 201 (TaskJson savedTask), s3)))"

text \<open>
  The update document of \<^verbatim>\<open>findOneAndUpdate\<close>: keys that are \<^verbatim>\<open>undefined\<close> are not written, and
  no validator runs.
\<close>

definition applyUpdate :: "TaskBody \<Rightarrow> ObjectId option \<Rightarrow> ObjectId list option \<Rightarrow> Task \<Rightarrow> Task" where
  "applyUpdate b g l t =
     t\<lparr>title := orElse (body_title b) (title t),
       description := orKeep (body_description b) (description t),
       link := orKeep (body_link b) (link t),
       tags := orKeep (body_tags b) (tags t),
       visibility := orElse (body_visibility b) (visibility t),
       completed := orElse (body_completed b) (completed t),
       status := orElse (body_status b) (status t),
       assigned_by := orKeep (body_assigned_by b) (assigned_by t),
       assigned_to := orKeep (body_assigned_to b) (assigned_to t),
       priority := orKeep (body_priority b) (priority t),
       dueDate := orKeep (body_dueDate b) (dueDate t),
       task_type := orKeep (body_type b) (task_type t),
       linkedTasks := orElse l (linkedTasks t),
       group := orKeep g (group t)\<rparr>"

text \<open>\<open>Inl\<close>: a cast failed; \<open>Inr None\<close>: no task has the id; \<open>Inr (Some (t, s'))\<close>: the updated
  document (\<^verbatim>\<open>new: true\<close>) and the collection after the write.\<close>

definition findOneAndUpdate ::
  "string \<Rightarrow> TaskBody \<Rightarrow> state \<Rightarrow> exn + (Task \<times> state) option" where
  "findOneAndUpdate tid b s =
     (case castObjectId tid of
        None \<Rightarrow> Inl CastError
      | Some i \<Rightarrow>
          (case castGroup (body_group b) of
             Inl x \<Rightarrow> Inl x
           | Inr g \<Rightarrow>
               (case castLinked (body_linkedTasks b) of
                  Inl x \<Rightarrow> Inl x
                | Inr l \<Rightarrow>
                    (case findTask s i of
                       None \<Rightarrow> Inr None
                     | Some t \<Rightarrow>
                         Inr (Some (applyUpdate b g l t,
                                    s\<lparr>tasks := map (\<lambda>x. if task_id x = i then applyUpdate b g l x else x)
                                                 (tasks s)\<rparr>))))))"

text \<open>
  The \<^verbatim>\<open>changes\<close> of an update are the differences between \<^verbatim>\<open>oldTask\<close> and \<^verbatim>\<open>updatedTask\<close>;
  \<open>putTask\<close> reads \<^verbatim>\<open>oldTask\<close> with \<^verbatim>\<open>Task.findById\<close> after the update has been written.
\<close>

definition diffChanges :: "Task \<Rightarrow> Task \<Rightarrow> jobject" where
  "diffChanges oldTask updatedTask =
     (if title oldTask \<noteq> title updatedTask then [(''title'', JString (title updatedTask))] else [])
     @ (if map_option toString (group oldTask) \<noteq> map_option toString (group updatedTask)
        then [(''group'', (case group updatedTask of None \<Rightarrow> JUndefined | Some g \<Rightarrow> JId g))]
        else [])"

definition putTask :: "env \<Rightarrow> string \<Rightarrow> TaskBody \<Rightarrow> ObjectId \<Rightarrow> state \<Rightarrow> response \<times> state" where
  "putTask e tid b uid s =
     (case findOneAndUpdate tid b s of
        Inl x \<Rightarrow> (respond 500 (Message ''Failed to update task''), s)
      | Inr None \<Rightarrow> (respond 404 (Message ''Task not found''), s)
      | Inr (Some (updatedTask, s1)) \<Rightarrow>
          (case findTask s1 (task_id updatedTask) of
             None \<Rightarrow> (respond 500 (Message ''Failed to update task''), s1)
           | Some oldTask \<Rightarrow>
               (let changes = diffChanges oldTask updatedTask;
                    s2 = recordAudit e (task_id updatedTask) update uid changes s1;
                    usersToNotify = getUsersToNotify s2 updatedTask
                in case sendNotifications e usersToNotify updatedTask update_event uid s2 of
                     Inl x \<Rightarrow> (respond 500 (Message ''Failed to update task''), s2)
                   | Inr s3 \<Rightarrow> (respond 200 (TaskJson updatedTask), s3))))"

definition deleteTask :: "env \<Rightarrow> string \<Rightarrow> ObjectId \<Rightarrow> state \<Rightarrow> response \<times> state" where
  "deleteTask e tid uid s =
     (case castObjectId tid of
        None \<Rightarrow> (respond 500 (Message ''Failed to delete task''), s)
      | Some i \<Rightarrow>
          (case findTask s i of
             None \<Rightarrow> (respond 404 (Message ''Task not found''), s)
           | Some taskToDelete \<Rightarrow>
               (let s1 = recordAudit e (task_id taskToDelete) delete uid (snapshot taskToDelete) s;
                    s2 = s1\<lparr>tasks := filter (\<lambda>t. task_id t \<noteq> i) (tasks s1)\<rparr>;
                    usersToNotify = getUsersToNotify s2 taskToDelete
                in case sendNotifications e usersToNotify taskToDelete deleted uid s2 of
                     Inl x \<Rightarrow> (respond 500 (Message ''Failed to delete task''), s2)
                   | Inr s3 \<Rightarrow> (respond 200 (Message ''Task deleted''), s3))))"

section \<open>DELETE /api/groups/:id\<close>

definition deleteGroup :: "string \<Rightarrow> ObjectId \<Rightarrow> state \<Rightarrow> response \<times> state" where
  "deleteGroup groupId uid s =
     (case castObjectId groupId of
        None \<Rightarrow> (respond 500 (Message ''Failed to delete group''), s)
      | Some gid \<Rightarrow>
          (case findGroup s gid of
             None \<Rightarrow> (respond 404 (Message ''Group not found''), s)
           | Some g \<Rightarrow>
               if toString (group_owner g) \<noteq> toString uid
               then (respond 403 (Message ''Forbidden: Only the owner can delete the group''), s)
               else (respond 200 (Message ''Group deleted''),
                     s\<lparr>groups := filter (\<lambda>x. group_id x \<noteq> gid) (groups s),
                       tasks := filter (\<lambda>t. group t \<noteq> Some gid) (tasks s)\<rparr>)))"

section \<open>Issuing session tokens\<close>

text \<open>
  The password hashing library is a parameter: \<open>hash\<close> is \<^verbatim>\<open>bcrypt.hash\<close> with a fresh salt,
  \<open>compare\<close> is \<^verbatim>\<open>bcrypt.compare\<close>; both throw on a password that is \<^verbatim>\<open>undefined\<close>.
\<close>

record Credentials =
  body_name :: "string option"
  body_username :: "string option"
  body_password :: "string option"

definition findByUsername :: "state \<Rightarrow> string option \<Rightarrow> User option" where
  "findByUsername s un =
     (case un of None \<Rightarrow> None | Some n \<Rightarrow> find (\<lambda>u. username u = n) (users s))"

definition postSignup ::
  "env \<Rightarrow> (string \<Rightarrow> string) \<Rightarrow> Credentials \<Rightarrow> state \<Rightarrow> response \<times> state" where
  "postSignup e hash b s =
     (case findByUsername s (body_username b) of
        Some existingUser \<Rightarrow> (respond 400 (Message ''Username already exists''), s)
      | None \<Rightarrow>
          (case body_password b of
             None \<Rightarrow> (respond 500 (Message ''Server error''), s)
           | Some pw \<Rightarrow>
               if truthy (body_name b) \<and> truthy (body_username b)
               then
                 (let newUser = \<lparr>user_id = newId e, name = orElse (body_name b) [],
                                  username = orElse (body_username b) [], password = hash pw\<rparr>;
                      s1 = s\<lparr>users := users s @ [newUser]\<rparr>
                  in if sendMail_fails e then (respond 500 (Message ''Server error''), s1)
                     else (respond 201
                             (SignupJson (jwt_sign e (user_id newUser) (JWT_SECRET e) None)
                                (user_id newUser)), s1))
               else (respond 500 (Message ''Server error''), s)))"

definition postLogin ::
  "env \<Rightarrow> (string \<Rightarrow> string \<Rightarrow> bool) \<Rightarrow> Credentials \<Rightarrow> state \<Rightarrow> response \<times> state" where
  "postLogin e compare b s =
     (case findByUsername s (body_username b) of
        None \<Rightarrow> (respond 400 (Message ''Invalid username or password''), s)
      | Some user \<Rightarrow>
          (case body_password b of
             None \<Rightarrow> (respond 500 (Message ''Server error''), s)
           | Some pw \<Rightarrow>
               if \<not> compare pw (password user)
               then (respond 400 (Message ''Invalid username or password''), s)
               else
                 (let token = jwt_sign e (user_id user) (JWT_SECRET e) (Some 3600)
                  in (\<lparr>res_status = 200, res_json = LoginJson token (user_id user) (name user),
                       res_cookie = Some (token, 3600000)\<rparr>, s))))"

text \<open>The token a response hands to the client.\<close>

fun issued :: "response \<Rightarrow> Token option" where
  "issued r =
     (case res_json r of
        SignupJson t u \<Rightarrow> Some t
      | LoginJson t u n \<Rightarrow> Some t
      | _ \<Rightarrow> None)"

section \<open>Example data\<close>

definition alice :: ObjectId where "alice = ObjectId ''64b000000000000000000001''"
definition bob :: ObjectId where "bob = ObjectId ''64b000000000000000000002''"
definition carol :: ObjectId where "carol = ObjectId ''64b000000000000000000003''"
definition dave :: ObjectId where "dave = ObjectId ''64b000000000000000000004''"
definition team :: ObjectId where "team = ObjectId ''64b0000000000000000000a1''"
definition task1 :: ObjectId where "task1 = ObjectId ''64b0000000000000000000f1''"
definition fresh :: ObjectId where "fresh = ObjectId ''64b0000000000000000000f2''"

definition person :: "ObjectId \<Rightarrow> string \<Rightarrow> User" where
  "person i n = \<lparr>user_id = i, name = n, username = n @ ''@example.org'', password = ''$2a$10$h''\<rparr>"

text \<open>Task \<open>A\<close>: owned by Bob, assigned to Alice, shared with the team of Carol and Dave.\<close>

definition taskA :: Task where
  "taskA = \<lparr>task_id = task1, title = ''A'', description = None, link = None, tags = None,
            visibility = ''group'', completed = False, status = 1, group = Some team,
            owner = bob, assigned_by = Some (toString bob), assigned_to = Some (toString alice),
            priority = None, dueDate = None, task_type = None, linkedTasks = []\<rparr>"

definition store0 :: state where
  "store0 = \<lparr>users = [person alice ''Alice'', person bob ''Bob'', person carol ''Carol'',
                      person dave ''Dave''],
             tasks = [taskA],
             groups = [\<lparr>group_id = team, group_name = ''Team'', group_owner = bob,
                        members = [carol, dave]\<rparr>],
             audits = [], notifications = []\<rparr>"

definition env0 :: env where
  "env0 = \<lparr>JWT_SECRET = ''secret'', now = 5000000, newId = fresh, audit_save_fails = False,
           insertMany_fails = False, sendMail_fails = False\<rparr>"

definition emptyBody :: TaskBody where
  "emptyBody = \<lparr>body_title = None, body_description = None, body_link = None, body_tags = None,
                body_visibility = None, body_completed = None, body_status = None,
                body_group = None, body_assigned_by = None, body_assigned_to = None,
                body_priority = None, body_dueDate = None, body_type = None,
                body_linkedTasks = None\<rparr>"

definition titleB :: TaskBody where
  "titleB = emptyBody\<lparr>body_title := Some ''B''\<rparr>"

text \<open>Task \<open>A\<close> with a person's name, not a user id, in \<^verbatim>\<open>assigned_to\<close>.\<close>

definition taskNamed :: Task where
  "taskNamed = taskA\<lparr>assigned_to := Some ''Alice''\<rparr>"

definition newcomer :: Credentials where
  "newcomer = \<lparr>body_name = Some ''Eve'', body_username = Some ''eve@example.org'',
               body_password = Some ''pw''\<rparr>"

definition aliceLogin :: Credentials where
  "aliceLogin = \<lparr>body_name = None, body_username = Some ''Alice@example.org'',
                 body_password = Some ''pw''\<rparr>"

text \<open>A session token for Alice with the one-hour expiry, and the clock two hours on.\<close>

definition aliceToken :: Token where
  "aliceToken = jwt_sign env0 alice (JWT_SECRET env0) (Some 3600)"

definition twoHoursLater :: env where
  "twoHoursLater = env0\<lparr>now := now env0 + 7200000\<rparr>"

text \<open>Task \<open>A\<close> assigned to Carol, who is also a member of its group.\<close>

definition taskCarol :: Task where
  "taskCarol = taskA\<lparr>assigned_to := Some (toString carol)\<rparr>"

definition groupTaskForCarol :: TaskBody where
  "groupTaskForCarol = titleB\<lparr>body_visibility := Some ''group'', body_group := Some (toString team),
                               body_assigned_to := Some (toString carol)\<rparr>"

text \<open>The same request with Alice, who is outside the group, as assignee.\<close>

definition groupTaskForAlice :: TaskBody where
  "groupTaskForAlice = titleB\<lparr>body_visibility := Some ''group'', body_group := Some (toString team),
                               body_assigned_to := Some (toString alice)\<rparr>"

section \<open>Auxiliary facts\<close>

lemma toString_inj: "toString a = toString b \<longleftrightarrow> a = b"
  by (cases a; cases b) simp

lemma find_filter_neg: "find P (filter (\<lambda>x. \<not> P x) xs) = None"
  by (induction xs) auto

lemma find_map_upd:
  assumes "find (\<lambda>t. task_id t = i) ts = Some t0" and "\<And>x. task_id (f x) = task_id x"
  shows "find (\<lambda>t. task_id t = i) (map (\<lambda>x. if task_id x = i then f x else x) ts) = Some (f t0)"
  using assms by (induction ts) (auto split: if_splits)

lemma task_id_applyUpdate: "task_id (applyUpdate b g l t) = task_id t"
  by (simp add: applyUpdate_def)

lemma findOneAndUpdate_SomeD:
  assumes "findOneAndUpdate tid b s = Inr (Some (t, s1))"
  obtains i g l t0 where "castObjectId tid = Some i" "castGroup (body_group b) = Inr g"
    "castLinked (body_linkedTasks b) = Inr l" "findTask s i = Some t0"
    "t = applyUpdate b g l t0"
    "s1 = s\<lparr>tasks := map (\<lambda>x. if task_id x = i then applyUpdate b g l x else x) (tasks s)\<rparr>"
  using assms unfolding findOneAndUpdate_def
  by (auto split: option.splits sum.splits)

text \<open>What \<open>putTask\<close> reads back as \<^verbatim>\<open>oldTask\<close> is the document it has just written.\<close>

lemma findTask_updated:
  assumes "findOneAndUpdate tid b s = Inr (Some (t, s1))"
  shows "findTask s1 (task_id t) = Some t"
proof -
  from assms obtain i g l t0 where h: "findTask s i = Some t0" "t = applyUpdate b g l t0"
    "s1 = s\<lparr>tasks := map (\<lambda>x. if task_id x = i then applyUpdate b g l x else x) (tasks s)\<rparr>"
    by (rule findOneAndUpdate_SomeD)
  from h(1) have "task_id t0 = i"
    by (auto simp: findTask_def find_Some_iff)
  with h show ?thesis
    by (simp add: findTask_def find_map_upd task_id_applyUpdate)
qed

text \<open>The recipients depend on the user and group collections only.\<close>

lemma getUsersToNotify_cong:
  assumes "users s' = users s" and "groups s' = groups s"
  shows "getUsersToNotify s' t = getUsersToNotify s t"
proof -
  have fu: "findUser s' = findUser s"
    using assms by (simp add: findUser_def fun_eq_iff)
  have fg: "findGroup s' = findGroup s"
    using assms by (simp add: findGroup_def fun_eq_iff)
  have pop: "populate s' = populate s"
    by (simp add: populate_def fun_eq_iff fu)
  show ?thesis
    unfolding getUsersToNotify_def collectUsers_def fg pop by (rule refl)
qed

lemma sendNotifications_env:
  "sendNotifications (e\<lparr>audit_save_fails := v\<rparr>) us t ty a s = sendNotifications e us t ty a s"
  by (simp add: sendNotifications_def Let_def split: sum.splits)

lemma sendNotifications_audits:
  "sendNotifications e us t ty a (s\<lparr>audits := A\<rparr>) =
     (case sendNotifications e us t ty a s of Inl x \<Rightarrow> Inl x | Inr s' \<Rightarrow> Inr (s'\<lparr>audits := A\<rparr>))"
  by (auto simp: sendNotifications_def assigneeName_def findUser_def Let_def
      split: sum.splits option.splits)

lemma sendNotifications_frame:
  assumes "sendNotifications e us t ty a s = Inr s'"
  shows "users s' = users s" "tasks s' = tasks s" "groups s' = groups s" "audits s' = audits s"
  using assms
  by (auto simp: sendNotifications_def Let_def split: sum.splits if_splits)

lemma recordAudit_frame:
  "users (recordAudit e t a u c s) = users s"
  "tasks (recordAudit e t a u c s) = tasks s"
  "groups (recordAudit e t a u c s) = groups s"
  "notifications (recordAudit e t a u c s) = notifications s"
  by (simp_all add: recordAudit_def)

lemma recordAudit_shape:
  obtains A where "recordAudit e t a u c s = s\<lparr>audits := A\<rparr>"
proof (cases "audit_save_fails e")
  case True
  then have "recordAudit e t a u c s = s\<lparr>audits := audits s\<rparr>"
    by (simp add: recordAudit_def)
  then show ?thesis by (rule that)
next
  case False
  then have "recordAudit e t a u c s = s\<lparr>audits := audits s @
      [\<lparr>taskId = t, action = a, changedBy = u, changes = c, timestamp = now e\<rparr>]\<rparr>"
    by (simp add: recordAudit_def)
  then show ?thesis by (rule that)
qed

lemma recordAudit_fails: "recordAudit (e\<lparr>audit_save_fails := True\<rparr>) t a u c s = s"
  by (simp add: recordAudit_def)

lemma newTask_env: "newTask (e\<lparr>audit_save_fails := v\<rparr>) uid b = newTask e uid b"
  by (simp add: newTask_def split: sum.splits)

text \<open>The end of each task route: the notifications, then the response.\<close>

lemma tail_frame:
  "tasks (snd (case sendNotifications e us t ty uid st of Inl x \<Rightarrow> (ra, st) | Inr sn \<Rightarrow> (rb, sn))) = tasks st"
  "audits (snd (case sendNotifications e us t ty uid st of Inl x \<Rightarrow> (ra, st) | Inr sn \<Rightarrow> (rb, sn))) = audits st"
  by (auto split: sum.splits dest: sendNotifications_frame)

lemma tail_audit_fail:
  "(case sendNotifications (e\<lparr>audit_save_fails := True\<rparr>) (getUsersToNotify st t) t ty uid st of
      Inl x \<Rightarrow> (ra, st) | Inr sn \<Rightarrow> (rb, sn)) =
   (fst (case sendNotifications e (getUsersToNotify (st\<lparr>audits := A\<rparr>) t) t ty uid (st\<lparr>audits := A\<rparr>) of
           Inl x \<Rightarrow> (ra, st\<lparr>audits := A\<rparr>) | Inr sn \<Rightarrow> (rb, sn)),
    (snd (case sendNotifications e (getUsersToNotify (st\<lparr>audits := A\<rparr>) t) t ty uid (st\<lparr>audits := A\<rparr>) of
           Inl x \<Rightarrow> (ra, st\<lparr>audits := A\<rparr>) | Inr sn \<Rightarrow> (rb, sn)))\<lparr>audits := audits st\<rparr>)"
proof -
  have u: "getUsersToNotify (st\<lparr>audits := A\<rparr>) t = getUsersToNotify st t"
    by (rule getUsersToNotify_cong) simp_all
  show ?thesis
  proof (cases "sendNotifications e (getUsersToNotify st t) t ty uid st")
    case (Inl x)
    then show ?thesis
      by (simp add: u sendNotifications_env sendNotifications_audits)
  next
    case (Inr sn)
    then have "audits sn = audits st"
      by (rule sendNotifications_frame)
    then have "sn\<lparr>audits := audits st\<rparr> = sn"
      by simp
    with Inr show ?thesis
      by (simp add: u sendNotifications_env sendNotifications_audits)
  qed
qed

section \<open>Visibility resolver\<close>

lemma memberGroupIds_iff:
  "g \<in> set (memberGroupIds s uid) \<longleftrightarrow>
     (\<exists>G \<in> set (groups s). group_id G = g \<and> uid \<in> set (members G))"
  by (auto simp: memberGroupIds_def)

lemma listed_getTasks:
  "listed (fst (getTasks U s)) = filter (taskFilter (memberGroupIds s U) U) (tasks s)"
  by (simp add: getTasks_def respond_def)

text \<open>
  C1.  The list returned by GET \<^verbatim>\<open>/api/tasks\<close> for user \<open>U\<close> contains a stored task \<open>T\<close>
  exactly when \<open>U\<close> is its owner, equals its \<^verbatim>\<open>assigned_by\<close> or \<^verbatim>\<open>assigned_to\<close>, the task is
  public, or the task has group visibility and \<open>U\<close> is a member of the group its \<^verbatim>\<open>group\<close>
  field references.  Hence a public task is listed for everyone, a group task for the
  members and the three related users, a private task for the three related users only.
\<close>

theorem getTasks_visibility:
  "(T \<in> set (listed (fst (getTasks U s))) \<longleftrightarrow>
      T \<in> set (tasks s) \<and>
      (owner T = U \<or> assigned_by T = Some (toString U) \<or> assigned_to T = Some (toString U)
       \<or> visibility T = ''public''
       \<or> (visibility T = ''group'' \<and>
           (\<exists>G \<in> set (groups s). group T = Some (group_id G) \<and> U \<in> set (members G)))))
   \<and> (visibility T = ''public'' \<longrightarrow>
        (T \<in> set (listed (fst (getTasks U s))) \<longleftrightarrow> T \<in> set (tasks s)))
   \<and> (visibility T = ''group'' \<longrightarrow>
        (T \<in> set (listed (fst (getTasks U s))) \<longleftrightarrow>
           T \<in> set (tasks s) \<and>
           ((\<exists>G \<in> set (groups s). group T = Some (group_id G) \<and> U \<in> set (members G))
            \<or> owner T = U \<or> assigned_by T = Some (toString U)
            \<or> assigned_to T = Some (toString U))))
   \<and> (visibility T = ''private'' \<longrightarrow>
        (T \<in> set (listed (fst (getTasks U s))) \<longleftrightarrow>
           T \<in> set (tasks s) \<and>
           (owner T = U \<or> assigned_by T = Some (toString U)
            \<or> assigned_to T = Some (toString U))))"
proof -
  have gid: "(case group T of None \<Rightarrow> False | Some g \<Rightarrow> g \<in> set (memberGroupIds s U)) \<longleftrightarrow>
      (\<exists>G \<in> set (groups s). group T = Some (group_id G) \<and> U \<in> set (members G))"
    by (auto simp: memberGroupIds_iff split: option.splits)
  have main: "T \<in> set (listed (fst (getTasks U s))) \<longleftrightarrow>
      T \<in> set (tasks s) \<and>
      (owner T = U \<or> assigned_by T = Some (toString U) \<or> assigned_to T = Some (toString U)
       \<or> visibility T = ''public''
       \<or> (visibility T = ''group'' \<and>
           (\<exists>G \<in> set (groups s). group T = Some (group_id G) \<and> U \<in> set (members G))))"
    unfolding listed_getTasks by (simp add: taskFilter_def gid)
  show ?thesis
    unfolding main by auto
qed

text \<open>
  Carol, a member of the team, is listed the group task \<open>A\<close>; Dave is listed it when it is
  public; once it is private Carol is not listed it any more, while Alice, its assignee, is.
\<close>

theorem getTasks_visibility_witness:
  "taskA \<in> set (listed (fst (getTasks carol store0)))
   \<and> taskA\<lparr>visibility := ''public'', group := None\<rparr>
       \<in> set (listed (fst (getTasks dave
                 (store0\<lparr>tasks := [taskA\<lparr>visibility := ''public'', group := None\<rparr>]\<rparr>))))
   \<and> taskA\<lparr>visibility := ''private''\<rparr>
       \<notin> set (listed (fst (getTasks carol (store0\<lparr>tasks := [taskA\<lparr>visibility := ''private''\<rparr>]\<rparr>))))
   \<and> taskA\<lparr>visibility := ''private''\<rparr>
       \<in> set (listed (fst (getTasks alice (store0\<lparr>tasks := [taskA\<lparr>visibility := ''private''\<rparr>]\<rparr>))))"
proof -
  have g: "taskA \<in> set (listed (fst (getTasks carol store0)))"
    using getTasks_visibility [of taskA carol store0]
    by (simp add: store0_def taskA_def)
  have p: "taskA\<lparr>visibility := ''public'', group := None\<rparr>
       \<in> set (listed (fst (getTasks dave
                 (store0\<lparr>tasks := [taskA\<lparr>visibility := ''public'', group := None\<rparr>]\<rparr>))))"
    using getTasks_visibility [of "taskA\<lparr>visibility := ''public'', group := None\<rparr>" dave
        "store0\<lparr>tasks := [taskA\<lparr>visibility := ''public'', group := None\<rparr>]\<rparr>"]
    by simp
  have q: "taskA\<lparr>visibility := ''private''\<rparr>
       \<notin> set (listed (fst (getTasks carol (store0\<lparr>tasks := [taskA\<lparr>visibility := ''private''\<rparr>]\<rparr>))))"
    using getTasks_visibility [of "taskA\<lparr>visibility := ''private''\<rparr>" carol
        "store0\<lparr>tasks := [taskA\<lparr>visibility := ''private''\<rparr>]\<rparr>"]
    by (simp add: taskA_def alice_def bob_def carol_def)
  have r: "taskA\<lparr>visibility := ''private''\<rparr>
       \<in> set (listed (fst (getTasks alice (store0\<lparr>tasks := [taskA\<lparr>visibility := ''private''\<rparr>]\<rparr>))))"
    using getTasks_visibility [of "taskA\<lparr>visibility := ''private''\<rparr>" alice
        "store0\<lparr>tasks := [taskA\<lparr>visibility := ''private''\<rparr>]\<rparr>"]
    by (simp add: taskA_def)
  from g p q r show ?thesis by blast
qed

section \<open>Facts about the example data\<close>

lemma cast_examples:
  "castObjectId (toString alice) = Some alice"
  "castObjectId (toString carol) = Some carol"
  "castObjectId (toString team) = Some team"
  "castObjectId (toString task1) = Some task1"
  by (simp_all add: castObjectId_def isHexDigit_def lowerHex_def alice_def carol_def team_def task1_def)

lemma cast_name: "castObjectId ''Alice'' = None"
  by (simp add: castObjectId_def)

lemma ids_neq:
  "alice \<noteq> bob" "alice \<noteq> carol" "alice \<noteq> dave" "bob \<noteq> carol" "bob \<noteq> dave" "carol \<noteq> dave"
  "task1 \<noteq> fresh"
  by (simp_all add: alice_def bob_def carol_def dave_def task1_def fresh_def)

lemma ids_nonempty:
  "toString alice \<noteq> []" "toString bob \<noteq> []" "toString carol \<noteq> []" "toString team \<noteq> []"
  by (simp_all add: alice_def bob_def carol_def team_def)

lemmas example_facts = cast_examples cast_name ids_neq ids_neq [symmetric] ids_nonempty

lemmas example_defs =
  store0_def taskA_def taskNamed_def taskCarol_def env0_def emptyBody_def titleB_def
  groupTaskForCarol_def groupTaskForAlice_def person_def

lemmas route_defs =
  postTask_def putTask_def deleteTask_def deleteGroup_def newTask_def findOneAndUpdate_def
  applyUpdate_def diffChanges_def castGroup_def castLinked_def truthy_def recordAudit_def
  getUsersToNotify_def collectUsers_def setAdd_def findGroup_def findTask_def findUser_def
  populate_def sendNotifications_def assigneeName_def notificationMessage_def quoted_def
  respond_def List.map_filter_def Let_def toString_inj

section \<open>Group deletion\<close>

text \<open>
  C9.  When the group exists, a caller other than its owner gets 403 Forbidden and nothing
  changes; the owner gets 200, after which no group has the id and no task references it,
  the other groups and tasks being kept.
\<close>

theorem deleteGroup_owner_only:
  assumes "castObjectId groupId = Some gid" and "findGroup s gid = Some g"
  shows "(group_owner g \<noteq> uid \<longrightarrow>
            deleteGroup groupId uid s =
              (respond 403 (Message ''Forbidden: Only the owner can delete the group''), s))
       \<and> (group_owner g = uid \<longrightarrow>
            res_status (fst (deleteGroup groupId uid s)) = 200
            \<and> findGroup (snd (deleteGroup groupId uid s)) gid = None
            \<and> groups (snd (deleteGroup groupId uid s)) = filter (\<lambda>x. group_id x \<noteq> gid) (groups s)
            \<and> (\<forall>t \<in> set (tasks (snd (deleteGroup groupId uid s))). group t \<noteq> Some gid)
            \<and> tasks (snd (deleteGroup groupId uid s)) = filter (\<lambda>t. group t \<noteq> Some gid) (tasks s))"
  using assms
  by (auto simp: deleteGroup_def toString_inj respond_def findGroup_def find_filter_neg)

text \<open>Alice is refused and leaves the store as it was; Bob, the owner, removes the team and
  task \<open>A\<close> with it.\<close>

theorem deleteGroup_owner_only_witness:
  "deleteGroup (toString team) alice store0 =
     (respond 403 (Message ''Forbidden: Only the owner can delete the group''), store0)
   \<and> res_status (fst (deleteGroup (toString team) bob store0)) = 200
   \<and> groups (snd (deleteGroup (toString team) bob store0)) = []
   \<and> tasks (snd (deleteGroup (toString team) bob store0)) = []"
proof -
  let ?g = "\<lparr>group_id = team, group_name = ''Team'', group_owner = bob, members = [carol, dave]\<rparr>"
  have f: "findGroup store0 team = Some ?g"
    by (simp add: findGroup_def store0_def)
  have ne: "group_owner ?g \<noteq> alice"
    by (simp add: alice_def bob_def)
  show ?thesis
    using deleteGroup_owner_only [OF cast_examples(3) f, of alice]
      deleteGroup_owner_only [OF cast_examples(3) f, of bob] ne
    by (simp add: store0_def taskA_def)
qed

section \<open>Recipients of a task with a free-form assignee\<close>

text \<open>
  C10.  When \<^verbatim>\<open>assigned_to\<close> is a non-empty string that is no ObjectId, \<open>getUsersToNotify\<close>
  returns the empty list whatever the owner and the group are, and neither deleting the
  task nor an update that results in it adds a notification record.
\<close>

theorem getUsersToNotify_invalid_assignee:
  assumes "assigned_to task = Some a" and "a \<noteq> []" and "castObjectId a = None"
  shows "(\<forall>s. getUsersToNotify s task = [])
       \<and> (\<forall>e tid uid s i. castObjectId tid = Some i \<and> findTask s i = Some task \<longrightarrow>
             notifications (snd (deleteTask e tid uid s)) = notifications s)
       \<and> (\<forall>e tid b uid s s1. findOneAndUpdate tid b s = Inr (Some (task, s1)) \<longrightarrow>
             notifications (snd (putTask e tid b uid s)) = notifications s)"
proof -
  have none: "getUsersToNotify s task = []" for s
    using assms by (simp add: getUsersToNotify_def collectUsers_def truthy_def)
  have quiet: "sendNotifications e [] task ty actor s = Inr s" if "ty \<noteq> assignment" for e ty actor s
    using that by (simp add: sendNotifications_def)
  have audit: "notifications (recordAudit e t a u c s) = notifications s" for e t a u c s
    by (simp add: recordAudit_def)
  have del: "notifications (snd (deleteTask e tid uid s)) = notifications s"
    if "castObjectId tid = Some i" "findTask s i = Some task" for e tid uid s i
    using that by (simp add: deleteTask_def Let_def none quiet audit)
  have put: "notifications (snd (putTask e tid b uid s)) = notifications s"
    if h: "findOneAndUpdate tid b s = Inr (Some (task, s1))" for e tid b uid s s1
  proof -
    have "notifications s1 = notifications s"
      using h by (rule findOneAndUpdate_SomeD) simp
    moreover have "findTask s1 (task_id task) = Some task"
      using h by (rule findTask_updated)
    ultimately show ?thesis
      using h by (simp add: putTask_def Let_def none quiet audit)
  qed
  from none del put show ?thesis by blast
qed

text \<open>With \<^verbatim>\<open>assigned_to = "Alice"\<close> task \<open>A\<close> has no recipients, and deleting or retitling it
  leaves the notification collection empty.\<close>

theorem getUsersToNotify_invalid_assignee_witness:
  "getUsersToNotify store0 taskNamed = []
   \<and> notifications (snd (deleteTask env0 (toString task1) bob (store0\<lparr>tasks := [taskNamed]\<rparr>))) = []
   \<and> notifications (snd (putTask env0 (toString task1) titleB bob (store0\<lparr>tasks := [taskNamed]\<rparr>))) = []"
proof -
  let ?s = "store0\<lparr>tasks := [taskNamed]\<rparr>"
  let ?t = "taskNamed\<lparr>title := ''B''\<rparr>"
  have a: "assigned_to taskNamed = Some ''Alice''" "assigned_to ?t = Some ''Alice''" "''Alice'' \<noteq> []"
    by (simp_all add: taskNamed_def)
  have f: "findTask ?s task1 = Some taskNamed"
    by (simp add: findTask_def taskNamed_def taskA_def)
  have u: "findOneAndUpdate (toString task1) titleB ?s = Inr (Some (?t, ?s\<lparr>tasks := [?t]\<rparr>))"
    by (simp add: route_defs example_defs example_facts)
  have n: "notifications ?s = []"
    by (simp add: store0_def)
  from getUsersToNotify_invalid_assignee [OF a(1) a(3) cast_name]
    getUsersToNotify_invalid_assignee [OF a(2) a(3) cast_name] cast_examples(4) f u n
  show ?thesis
    by metis
qed

section \<open>A failing audit write\<close>

lemma postTask_audit_fail:
  "postTask (e\<lparr>audit_save_fails := True\<rparr>) b uid s =
     (fst (postTask e b uid s), (snd (postTask e b uid s))\<lparr>audits := audits s\<rparr>)"
proof (cases "newTask e uid b")
  case (Inl x)
  then show ?thesis
    by (simp add: postTask_def newTask_env)
next
  case (Inr t)
  let ?s1 = "s\<lparr>tasks := tasks s @ [t]\<rparr>"
  obtain A where a: "recordAudit e (task_id t) create uid (toObject t) ?s1 = ?s1\<lparr>audits := A\<rparr>"
    by (rule recordAudit_shape)
  have L: "postTask (e\<lparr>audit_save_fails := True\<rparr>) b uid s =
      (case sendNotifications (e\<lparr>audit_save_fails := True\<rparr>) (getUsersToNotify ?s1 t) t assignment uid ?s1 of
         Inl x \<Rightarrow> (respond 500 (Message ''Failed to create task''), ?s1)
       | Inr sn \<Rightarrow> (respond 201 (TaskJson t), sn))"
    by (simp add: postTask_def newTask_env Inr Let_def recordAudit_fails split: sum.splits)
  have R: "postTask e b uid s =
      (case sendNotifications e (getUsersToNotify (?s1\<lparr>audits := A\<rparr>) t) t assignment uid (?s1\<lparr>audits := A\<rparr>) of
         Inl x \<Rightarrow> (respond 500 (Message ''Failed to create task''), ?s1\<lparr>audits := A\<rparr>)
       | Inr sn \<Rightarrow> (respond 201 (TaskJson t), sn))"
    by (simp add: postTask_def Inr Let_def a split: sum.splits)
  show ?thesis
    unfolding L R
    using tail_audit_fail [where e=e and st="?s1" and t=t and ty=assignment and uid=uid and A=A]
    by simp
qed

lemma putTask_audit_fail:
  "putTask (e\<lparr>audit_save_fails := True\<rparr>) tid b uid s =
     (fst (putTask e tid b uid s), (snd (putTask e tid b uid s))\<lparr>audits := audits s\<rparr>)"
proof (cases "findOneAndUpdate tid b s")
  case (Inl x)
  then show ?thesis
    by (simp add: putTask_def)
next
  case (Inr r)
  show ?thesis
  proof (cases r)
    case None
    with Inr show ?thesis
      by (simp add: putTask_def)
  next
    case (Some p)
    obtain t s1 where p: "p = (t, s1)"
      by (cases p)
    have upd: "findOneAndUpdate tid b s = Inr (Some (t, s1))"
      using Inr Some p by simp
    have old: "findTask s1 (task_id t) = Some t"
      using upd by (rule findTask_updated)
    have au: "audits s1 = audits s"
      using upd by (rule findOneAndUpdate_SomeD) simp
    obtain A where a: "recordAudit e (task_id t) update uid (diffChanges t t) s1 = s1\<lparr>audits := A\<rparr>"
      by (rule recordAudit_shape)
    have L: "putTask (e\<lparr>audit_save_fails := True\<rparr>) tid b uid s =
        (case sendNotifications (e\<lparr>audit_save_fails := True\<rparr>) (getUsersToNotify s1 t) t update_event uid s1 of
           Inl x \<Rightarrow> (respond 500 (Message ''Failed to update task''), s1)
         | Inr sn \<Rightarrow> (respond 200 (TaskJson t), sn))"
      by (simp add: putTask_def upd Let_def recordAudit_fails old split: sum.splits)
    have R: "putTask e tid b uid s =
        (case sendNotifications e (getUsersToNotify (s1\<lparr>audits := A\<rparr>) t) t update_event uid (s1\<lparr>audits := A\<rparr>) of
           Inl x \<Rightarrow> (respond 500 (Message ''Failed to update task''), s1\<lparr>audits := A\<rparr>)
         | Inr sn \<Rightarrow> (respond 200 (TaskJson t), sn))"
      by (simp add: putTask_def upd Let_def old a split: sum.splits)
    show ?thesis
      unfolding L R
      using tail_audit_fail [where e=e and st=s1 and t=t and ty=update_event and uid=uid and A=A]
      by (simp add: au)
  qed
qed

lemma deleteTask_audit_fail:
  "deleteTask (e\<lparr>audit_save_fails := True\<rparr>) tid uid s =
     (fst (deleteTask e tid uid s), (snd (deleteTask e tid uid s))\<lparr>audits := audits s\<rparr>)"
proof (cases "castObjectId tid")
  case None
  then show ?thesis
    by (simp add: deleteTask_def)
next
  case (Some i)
  show ?thesis
  proof (cases "findTask s i")
    case None
    with Some show ?thesis
      by (simp add: deleteTask_def)
  next
    case (Some t)
    let ?s1 = "s\<lparr>tasks := filter (\<lambda>x. task_id x \<noteq> i) (tasks s)\<rparr>"
    obtain A where a: "recordAudit e (task_id t) delete uid (snapshot t) s = s\<lparr>audits := A\<rparr>"
      by (rule recordAudit_shape)
    have sw: "s\<lparr>audits := A, tasks := filter (\<lambda>x. task_id x \<noteq> i) (tasks s)\<rparr> = ?s1\<lparr>audits := A\<rparr>"
      by simp
    have L: "deleteTask (e\<lparr>audit_save_fails := True\<rparr>) tid uid s =
        (case sendNotifications (e\<lparr>audit_save_fails := True\<rparr>) (getUsersToNotify ?s1 t) t deleted uid ?s1 of
           Inl x \<Rightarrow> (respond 500 (Message ''Failed to delete task''), ?s1)
         | Inr sn \<Rightarrow> (respond 200 (Message ''Task deleted''), sn))"
      by (simp add: deleteTask_def \<open>castObjectId tid = Some i\<close> Some Let_def recordAudit_fails split: sum.splits)
    have R: "deleteTask e tid uid s =
        (case sendNotifications e (getUsersToNotify (?s1\<lparr>audits := A\<rparr>) t) t deleted uid (?s1\<lparr>audits := A\<rparr>) of
           Inl x \<Rightarrow> (respond 500 (Message ''Failed to delete task''), ?s1\<lparr>audits := A\<rparr>)
         | Inr sn \<Rightarrow> (respond 200 (Message ''Task deleted''), sn))"
      by (simp add: deleteTask_def \<open>castObjectId tid = Some i\<close> Some Let_def a sw split: sum.splits)
    show ?thesis
      unfolding L R
      using tail_audit_fail [where e=e and st="?s1" and t=t and ty=deleted and uid=uid and A=A]
      by simp
  qed
qed

lemma postTask_tasks:
  assumes "newTask e uid b = Inr t"
  shows "tasks (snd (postTask e b uid s)) = tasks s @ [t]"
  using assms by (simp add: postTask_def Let_def tail_frame recordAudit_frame)

lemma postTask_audits:
  assumes "newTask e uid b = Inr t"
  shows "audits (snd (postTask e b uid s)) =
           audits (recordAudit e (task_id t) create uid (toObject t) s)"
  using assms by (simp add: postTask_def Let_def tail_frame recordAudit_def)

lemma putTask_tasks:
  assumes "findOneAndUpdate tid b s = Inr (Some (t, s1))"
  shows "tasks (snd (putTask e tid b uid s)) = tasks s1"
  using assms findTask_updated [OF assms]
  by (simp add: putTask_def Let_def tail_frame recordAudit_frame)

lemma putTask_audits:
  assumes "findOneAndUpdate tid b s = Inr (Some (t, s1))"
  shows "audits (snd (putTask e tid b uid s)) =
           audits (recordAudit e (task_id t) update uid [] s)"
proof -
  have "audits s1 = audits s"
    using assms by (rule findOneAndUpdate_SomeD) simp
  then show ?thesis
    using assms findTask_updated [OF assms]
    by (simp add: putTask_def Let_def tail_frame recordAudit_def diffChanges_def)
qed

lemma deleteTask_tasks:
  assumes "castObjectId tid = Some i" and "findTask s i = Some t"
  shows "tasks (snd (deleteTask e tid uid s)) = filter (\<lambda>x. task_id x \<noteq> i) (tasks s)"
proof -
  have "tasks (snd (deleteTask e tid uid s)) =
      filter (\<lambda>x. task_id x \<noteq> i) (tasks (recordAudit e (task_id t) delete uid (snapshot t) s))"
    using assms by (simp add: deleteTask_def Let_def tail_frame)
  then show ?thesis
    by (simp add: recordAudit_frame)
qed

lemma deleteTask_audits:
  assumes "castObjectId tid = Some i" and "findTask s i = Some t"
  shows "audits (snd (deleteTask e tid uid s)) =
           audits (recordAudit e (task_id t) delete uid (snapshot t) s)"
  using assms by (simp add: deleteTask_def Let_def tail_frame recordAudit_def)

text \<open>
  C8.  For each of the three task routes, a failing audit write changes neither the
  response nor the collections: the outcome is the one of the same request with the
  audit store as given, except that the audit log stays as it was.  The task written,
  updated or removed by the request stays written, updated or removed.
\<close>

theorem audit_failure_swallowed:
  "(postTask (e\<lparr>audit_save_fails := True\<rparr>) b uid s =
      (fst (postTask e b uid s), (snd (postTask e b uid s))\<lparr>audits := audits s\<rparr>)
    \<and> (\<forall>t. newTask e uid b = Inr t \<longrightarrow>
          tasks (snd (postTask (e\<lparr>audit_save_fails := True\<rparr>) b uid s)) = tasks s @ [t]))
   \<and> (putTask (e\<lparr>audit_save_fails := True\<rparr>) tid b' uid s =
      (fst (putTask e tid b' uid s), (snd (putTask e tid b' uid s))\<lparr>audits := audits s\<rparr>)
    \<and> (\<forall>t s1. findOneAndUpdate tid b' s = Inr (Some (t, s1)) \<longrightarrow>
          tasks (snd (putTask (e\<lparr>audit_save_fails := True\<rparr>) tid b' uid s)) = tasks s1))
   \<and> (deleteTask (e\<lparr>audit_save_fails := True\<rparr>) tid uid s =
      (fst (deleteTask e tid uid s), (snd (deleteTask e tid uid s))\<lparr>audits := audits s\<rparr>)
    \<and> (\<forall>i t. castObjectId tid = Some i \<and> findTask s i = Some t \<longrightarrow>
          tasks (snd (deleteTask (e\<lparr>audit_save_fails := True\<rparr>) tid uid s)) =
            filter (\<lambda>x. task_id x \<noteq> i) (tasks s)))"
proof -
  have "tasks (snd (postTask (e\<lparr>audit_save_fails := True\<rparr>) b uid s)) = tasks s @ [t]"
    if "newTask e uid b = Inr t" for t
    using that by (intro postTask_tasks) (simp add: newTask_env)
  moreover have "tasks (snd (putTask (e\<lparr>audit_save_fails := True\<rparr>) tid b' uid s)) = tasks s1"
    if "findOneAndUpdate tid b' s = Inr (Some (t, s1))" for t s1
    using that by (rule putTask_tasks)
  moreover have "tasks (snd (deleteTask (e\<lparr>audit_save_fails := True\<rparr>) tid uid s)) =
      filter (\<lambda>x. task_id x \<noteq> i) (tasks s)"
    if "castObjectId tid = Some i \<and> findTask s i = Some t" for i t
    using that by (intro deleteTask_tasks) simp_all
  ultimately show ?thesis
    using postTask_audit_fail [of e b uid s] putTask_audit_fail [of e tid b' uid s]
      deleteTask_audit_fail [of e tid uid s]
    by blast
qed

text \<open>With the audit store failing, creating task \<open>B\<close> answers 201, retitling and deleting
  task \<open>A\<close> answer 200, the task collection changes accordingly and no audit record is
  written.\<close>

theorem audit_failure_swallowed_witness:
  "res_status (fst (postTask (env0\<lparr>audit_save_fails := True\<rparr>) titleB bob store0)) = 201
   \<and> map title (tasks (snd (postTask (env0\<lparr>audit_save_fails := True\<rparr>) titleB bob store0))) = [''A'', ''B'']
   \<and> audits (snd (postTask (env0\<lparr>audit_save_fails := True\<rparr>) titleB bob store0)) = []
   \<and> res_status (fst (putTask (env0\<lparr>audit_save_fails := True\<rparr>) (toString task1) titleB bob store0)) = 200
   \<and> map title (tasks (snd (putTask (env0\<lparr>audit_save_fails := True\<rparr>) (toString task1) titleB bob store0))) = [''B'']
   \<and> res_status (fst (deleteTask (env0\<lparr>audit_save_fails := True\<rparr>) (toString task1) bob store0)) = 200
   \<and> tasks (snd (deleteTask (env0\<lparr>audit_save_fails := True\<rparr>) (toString task1) bob store0)) = []"
proof -
  let ?e = "env0\<lparr>audit_save_fails := True\<rparr>"
  note sw = audit_failure_swallowed [of env0 titleB bob store0 "toString task1" titleB]
  have ok: "res_status (fst (postTask env0 titleB bob store0)) = 201"
    "res_status (fst (putTask env0 (toString task1) titleB bob store0)) = 200"
    "res_status (fst (deleteTask env0 (toString task1) bob store0)) = 200"
    by (simp_all add: route_defs example_defs example_facts)
  obtain t where n: "newTask env0 bob titleB = Inr t" and tt: "title t = ''B''"
    by (simp add: route_defs example_defs)
  obtain t' s1 where u: "findOneAndUpdate (toString task1) titleB store0 = Inr (Some (t', s1))"
    and us: "map title (tasks s1) = [''B'']"
    by (simp add: route_defs example_defs example_facts)
  have f: "castObjectId (toString task1) = Some task1 \<and> findTask store0 task1 = Some taskA"
    by (simp add: cast_examples findTask_def store0_def taskA_def)
  have st: "map title (tasks store0) = [''A'']" "filter (\<lambda>x. task_id x \<noteq> task1) (tasks store0) = []"
    "audits store0 = []"
    by (simp_all add: store0_def taskA_def)
  from sw n have "tasks (snd (postTask ?e titleB bob store0)) = tasks store0 @ [t]"
    by blast
  with tt st have p: "map title (tasks (snd (postTask ?e titleB bob store0))) = [''A'', ''B'']"
    by simp
  from sw u have "tasks (snd (putTask ?e (toString task1) titleB bob store0)) = tasks s1"
    by blast
  with us have q: "map title (tasks (snd (putTask ?e (toString task1) titleB bob store0))) = [''B'']"
    by simp
  from sw f st have d: "tasks (snd (deleteTask ?e (toString task1) bob store0)) = []"
    by metis
  from sw have r: "fst (postTask ?e titleB bob store0) = fst (postTask env0 titleB bob store0)"
    "audits (snd (postTask ?e titleB bob store0)) = audits store0"
    "fst (putTask ?e (toString task1) titleB bob store0) = fst (putTask env0 (toString task1) titleB bob store0)"
    "fst (deleteTask ?e (toString task1) bob store0) = fst (deleteTask env0 (toString task1) bob store0)"
    by simp_all
  from p q d r ok st show ?thesis
    by simp
qed

section \<open>One audit record per task route\<close>

text \<open>
  C5, as amended.  When the audit write does not fail, each of POST, PUT and DELETE
  \<^verbatim>\<open>/api/tasks\<close> that writes, updates or removes a task appends exactly one audit record to
  the log, carrying the task's id, the acting user and the action \<open>create\<close>, \<open>update\<close> or
  \<open>delete\<close> respectively.
\<close>

theorem task_routes_audited:
  assumes "\<not> audit_save_fails e"
  shows "(\<forall>t. newTask e uid b = Inr t \<longrightarrow>
            audits (snd (postTask e b uid s)) = audits s @
              [\<lparr>taskId = task_id t, action = create, changedBy = uid, changes = toObject t,
                timestamp = now e\<rparr>])
       \<and> (\<forall>t s1. findOneAndUpdate tid b' s = Inr (Some (t, s1)) \<longrightarrow>
            (\<exists>ch. audits (snd (putTask e tid b' uid s)) = audits s @
              [\<lparr>taskId = task_id t, action = update, changedBy = uid, changes = ch,
                timestamp = now e\<rparr>]))
       \<and> (\<forall>i t. castObjectId tid = Some i \<and> findTask s i = Some t \<longrightarrow>
            audits (snd (deleteTask e tid uid s)) = audits s @
              [\<lparr>taskId = task_id t, action = delete, changedBy = uid, changes = snapshot t,
                timestamp = now e\<rparr>])"
  using assms
  by (auto simp: postTask_audits putTask_audits deleteTask_audits recordAudit_def)

text \<open>In the example store the three routes append a \<open>create\<close> record for the new task and an
  \<open>update\<close> and a \<open>delete\<close> record for task \<open>A\<close>.\<close>

theorem task_routes_audited_witness:
  "\<not> audit_save_fails env0
   \<and> map action (audits (snd (postTask env0 titleB bob store0))) = [create]
   \<and> map taskId (audits (snd (postTask env0 titleB bob store0))) = [fresh]
   \<and> map action (audits (snd (putTask env0 (toString task1) titleB bob store0))) = [update]
   \<and> map taskId (audits (snd (putTask env0 (toString task1) titleB bob store0))) = [task1]
   \<and> map action (audits (snd (deleteTask env0 (toString task1) bob store0))) = [delete]
   \<and> map taskId (audits (snd (deleteTask env0 (toString task1) bob store0))) = [task1]"
proof -
  have ok: "\<not> audit_save_fails env0"
    by (simp add: env0_def)
  obtain t where n: "newTask env0 bob titleB = Inr t" and nt: "task_id t = fresh"
    by (simp add: route_defs example_defs)
  have f: "findTask store0 task1 = Some taskA" and ft: "task_id taskA = task1"
    by (simp_all add: findTask_def store0_def taskA_def)
  obtain t' s1 where u: "findOneAndUpdate (toString task1) titleB store0 = Inr (Some (t', s1))"
    and ut: "task_id t' = task1"
    by (simp add: route_defs example_defs example_facts)
  have a: "audits store0 = []"
    by (simp add: store0_def)
  from task_routes_audited [OF ok, of bob titleB store0 "toString task1" titleB]
  show ?thesis
    using ok n nt f ft u ut a cast_examples(4) by auto
qed

text \<open>
  C5, as stated, fails twice over.  Bob deleting the team removes task \<open>A\<close> from the task
  collection while the audit log stays as it was: \<open>deleteGroup\<close> never calls \<open>recordAudit\<close>.
  And with the audit store failing, creating task \<open>B\<close> answers 201 and stores the task
  without any audit record.
\<close>

theorem cascade_and_failed_audit_leave_no_record:
  "taskA \<in> set (tasks store0)
   \<and> res_status (fst (deleteGroup (toString team) bob store0)) = 200
   \<and> taskA \<notin> set (tasks (snd (deleteGroup (toString team) bob store0)))
   \<and> audits (snd (deleteGroup (toString team) bob store0)) = audits store0
   \<and> res_status (fst (postTask (env0\<lparr>audit_save_fails := True\<rparr>) titleB bob store0)) = 201
   \<and> length (tasks (snd (postTask (env0\<lparr>audit_save_fails := True\<rparr>) titleB bob store0))) =
       Suc (length (tasks store0))
   \<and> audits (snd (postTask (env0\<lparr>audit_save_fails := True\<rparr>) titleB bob store0)) = audits store0"
  by (simp add: route_defs example_defs example_facts)

section \<open>The changes recorded for an update\<close>

text \<open>
  C2.  Retitling task \<open>A\<close> to \<open>B\<close> stores the new title and appends an \<open>update\<close> record whose
  \<^verbatim>\<open>changes\<close> object is empty, where the claim expects \<^verbatim>\<open>{title: "B"}\<close>: \<^verbatim>\<open>oldTask\<close> is read
  after the write and so never differs from \<^verbatim>\<open>updatedTask\<close> (lemma \<open>putTask_audits\<close> shows
  this for every update).
\<close>

theorem putTask_audit_misses_title:
  "findTask store0 task1 = Some taskA \<and> title taskA = ''A''
   \<and> res_status (fst (putTask env0 (toString task1) titleB bob store0)) = 200
   \<and> map title (tasks (snd (putTask env0 (toString task1) titleB bob store0))) = [''B'']
   \<and> map action (audits (snd (putTask env0 (toString task1) titleB bob store0))) = [update]
   \<and> map changes (audits (snd (putTask env0 (toString task1) titleB bob store0))) = [[]]"
  by (simp add: route_defs example_defs example_facts)

section \<open>A failing notification write\<close>

text \<open>
  C3.  With \<^verbatim>\<open>insertMany\<close> failing and at least one recipient, each task route answers 500
  although the task has been written, updated or removed: \<open>sendNotifications\<close> has no
  \<^verbatim>\<open>try\<close> of its own, unlike \<open>recordAudit\<close> and \<open>getUsersToNotify\<close>.
\<close>

theorem failed_insertMany_is_reported:
  "fst (postTask (env0\<lparr>insertMany_fails := True\<rparr>) groupTaskForCarol bob store0) =
     respond 500 (Message ''Failed to create task'')
   \<and> map title (tasks (snd (postTask (env0\<lparr>insertMany_fails := True\<rparr>) groupTaskForCarol bob store0))) =
       [''A'', ''B'']
   \<and> fst (putTask (env0\<lparr>insertMany_fails := True\<rparr>) (toString task1) titleB bob store0) =
       respond 500 (Message ''Failed to update task'')
   \<and> map title (tasks (snd (putTask (env0\<lparr>insertMany_fails := True\<rparr>) (toString task1) titleB bob store0))) =
       [''B'']
   \<and> fst (deleteTask (env0\<lparr>insertMany_fails := True\<rparr>) (toString task1) bob store0) =
       respond 500 (Message ''Failed to delete task'')
   \<and> tasks (snd (deleteTask (env0\<lparr>insertMany_fails := True\<rparr>) (toString task1) bob store0)) = []"
  by (simp add: route_defs example_defs example_facts)

section \<open>Duplicate recipients\<close>

text \<open>
  With assignee Alice, owner Bob and members Carol and Dave all different, creating the
  task inserts one unread \<open>assignment\<close> record per user, all with the same message.
\<close>

lemma fan_out_example:
  "map (\<lambda>n. (userId n, message n, notif_type n, read n))
       (notifications (snd (postTask env0 groupTaskForAlice bob store0))) =
     [(alice, ''Bob created a task '' @ quoted ''B'' @ '' for Alice.'', assignment, False),
      (bob, ''Bob created a task '' @ quoted ''B'' @ '' for Alice.'', assignment, False),
      (carol, ''Bob created a task '' @ quoted ''B'' @ '' for Alice.'', assignment, False),
      (dave, ''Bob created a task '' @ quoted ''B'' @ '' for Alice.'', assignment, False)]"
  by (simp add: route_defs example_defs example_facts)

text \<open>
  C4.  Carol is the assignee of a group task and a member of its group.  She is listed
  twice among the recipients and gets two notification records for the one event: the Set
  holds the ObjectId built from \<^verbatim>\<open>assigned_to\<close> and the \<^verbatim>\<open>_id\<close> of her populated member document
  as two elements.  For task \<open>A\<close>, whose assignee and owner are outside the group, the
  recipients are the four distinct users of the claim's example.
\<close>

theorem member_assignee_notified_twice:
  "getUsersToNotify store0 taskCarol = [carol, bob, carol, dave]
   \<and> res_status (fst (postTask env0 groupTaskForCarol bob store0)) = 201
   \<and> map userId (notifications (snd (postTask env0 groupTaskForCarol bob store0))) =
       [carol, bob, carol, dave]
   \<and> getUsersToNotify store0 taskA = [alice, bob, carol, dave]"
  by (simp add: route_defs example_defs example_facts)

section \<open>Access-control gate\<close>

lemma authMiddleware_Inr_iff:
  "authMiddleware e c = Inr u \<longleftrightarrow>
     (\<exists>p. c = Some (Jwt p (JWT_SECRET e)) \<and> jwt_userId p = u
          \<and> (case exp p of None \<Rightarrow> True | Some t \<Rightarrow> clock e < t))"
proof (cases c)
  case None
  then show ?thesis by (simp add: authMiddleware_def)
next
  case (Some token)
  then show ?thesis
    by (cases token) (auto simp: authMiddleware_def split: option.splits)
qed

lemma authMiddleware_Inl:
  assumes "authMiddleware e c = Inl r"
  shows "r = respond 401 (Message ''Unauthorized'')"
  using assms by (auto simp: authMiddleware_def split: if_splits option.splits sum.splits)

lemma guarded_runs_handler:
  "guarded e c handler s =
     (case authMiddleware e c of
        Inl r \<Rightarrow> (respond 401 (Message ''Unauthorized''), s)
      | Inr uid \<Rightarrow> handler uid s)"
  by (auto simp: guarded_def split: sum.splits dest: authMiddleware_Inl)

lemma login_token_expires:
  assumes "issued (fst (postLogin e cmp b s)) = Some tok"
    and "JWT_SECRET e' = JWT_SECRET e" and "clock e + 3600 \<le> clock e'"
  shows "authMiddleware e' (Some tok) = Inl (respond 401 (Message ''Unauthorized''))"
  using assms
  by (auto simp: postLogin_def respond_def authMiddleware_def jwt_sign_def Let_def
      split: option.splits if_splits)

text \<open>
  C6.  \<open>authMiddleware\<close> checks the token only.  With the user collection emptied, Alice's
  unexpired token still passes the gate, and the guarded routes run with her id (the task
  list is served, a task is created); \<^verbatim>\<open>/api/users/verify\<close> answers 401 for the same
  token, because it looks the user up.
\<close>

theorem authMiddleware_admits_deleted_user:
  "findUser (store0\<lparr>users := []\<rparr>) alice = None
   \<and> authMiddleware env0 (Some aliceToken) = Inr alice
   \<and> res_status (fst (guarded env0 (Some aliceToken) getTasks (store0\<lparr>users := []\<rparr>))) = 200
   \<and> res_status (fst (guarded env0 (Some aliceToken) (postTask env0 titleB) (store0\<lparr>users := []\<rparr>))) = 201
   \<and> getVerify env0 (Some aliceToken) (store0\<lparr>users := []\<rparr>) = respond 401 (Message ''Unauthorized'')"
  by (simp add: guarded_def authMiddleware_def getVerify_def aliceToken_def jwt_sign_def clock_def
      getTasks_def route_defs example_defs example_facts)

text \<open>
  C7.  \<open>postSignup\<close> signs its token without \<^verbatim>\<open>expiresIn\<close>.  Presented two hours after it was
  issued, the token of the newly signed-up user passes the gate, while the token that
  \<open>postLogin\<close> issued at the same moment is rejected (lemma \<open>login_token_expires\<close>).
\<close>

theorem signup_token_never_expires:
  "res_status (fst (postSignup env0 (\<lambda>pw. pw) newcomer store0)) = 201
   \<and> authMiddleware twoHoursLater (issued (fst (postSignup env0 (\<lambda>pw. pw) newcomer store0))) = Inr fresh
   \<and> res_status (fst (postLogin env0 (\<lambda>pw h. True) aliceLogin store0)) = 200
   \<and> authMiddleware env0 (issued (fst (postLogin env0 (\<lambda>pw h. True) aliceLogin store0))) = Inr alice
   \<and> authMiddleware twoHoursLater (issued (fst (postLogin env0 (\<lambda>pw h. True) aliceLogin store0))) =
       Inl (respond 401 (Message ''Unauthorized''))"
  by (simp add: postSignup_def postLogin_def findByUsername_def newcomer_def aliceLogin_def
      twoHoursLater_def authMiddleware_def jwt_sign_def clock_def route_defs example_defs example_facts)

end
